theory Spec2Isabelle
  imports Complex_Main "HOL-Library.Product_Lexorder"
begin

section \<open>Record model\<close>

text \<open>
  A calendar date is the triple (year, month, day) that \<^verbatim>\<open>pd.to_datetime\<close> parses out of
  the \<^verbatim>\<open>YYYY-MM-DD\<close> text of the \<^verbatim>\<open>date\<close> column. Dates compare lexicographically,
  which is the chronological order.
\<close>

type_synonym date = "nat \<times> nat \<times> nat"

definition year_of :: "date \<Rightarrow> nat" where
  "year_of d = fst d"

definition month_of :: "date \<Rightarrow> nat" where
  "month_of d = fst (snd d)"

text \<open>
  One row of the CSV file (one dictionary of \<^verbatim>\<open>new_records\<close>). The averages are halves of
  integers and the wind values are decimal numbers: both are kept as rationals. A wind cell
  that is empty in the file (NaN in the frame) is \<open>None\<close>.
\<close>

record weather_record =
  date :: date
  max_temp_c :: int
  min_temp_c :: int
  max_temp_f :: int
  min_temp_f :: int
  avg_temp_c :: rat
  avg_temp_f :: rat
  uv_index :: string
  sun_hour :: string
  wind_speed_kmph :: "rat option"
  wind_direction :: "string option"
  wind_gust_kmph :: "rat option"

section \<open>Dataset store: the merge of update_digby_temperature.py\<close>

text \<open>
  \<^verbatim>\<open>df_combined.sort_values('date')\<close>: the rows in ascending order of their date. Rows of
  equal date keep their relative order here (a stable sort); pandas sorts with its default
  \<^verbatim>\<open>kind='quicksort'\<close>, for which the library promises no order among equal dates.
\<close>

definition sort_values :: "weather_record list \<Rightarrow> weather_record list" where
  "sort_values df = sort_key date df"

text \<open>
  \<^verbatim>\<open>drop_duplicates(subset=['date'], keep='last')\<close>: a row is dropped when a later row has
  the same date; the rows kept stay in their order.
\<close>

fun drop_duplicates_last :: "weather_record list \<Rightarrow> weather_record list" where
  "drop_duplicates_last [] = []"
| "drop_duplicates_last (r # rs) =
     (if date r \<in> set (map date rs) then drop_duplicates_last rs
      else r # drop_duplicates_last rs)"

text \<open>
  Lines 178 to 182:
  \<^verbatim>\<open>df_combined = pd.concat([df_existing, df_new], ignore_index=True)\<close>,
  then \<^verbatim>\<open>sort_values('date')\<close>, then \<^verbatim>\<open>drop_duplicates(subset=['date'], keep='last')\<close>.
\<close>

definition merge :: "weather_record list \<Rightarrow> weather_record list \<Rightarrow> weather_record list" where
  "merge df_existing df_new = drop_duplicates_last (sort_values (df_existing @ df_new))"



section \<open>Calendar arithmetic\<close>

text \<open>
  \<^verbatim>\<open>calendar.monthrange(year, month)[1]\<close> and \<^verbatim>\<open>last_date + timedelta(days=1)\<close> on the
  triple representation.
\<close>

definition is_leap :: "nat \<Rightarrow> bool" where
  "is_leap y \<longleftrightarrow> y mod 4 = 0 \<and> (y mod 100 \<noteq> 0 \<or> y mod 400 = 0)"

definition days_in_month :: "nat \<Rightarrow> nat \<Rightarrow> nat" where
  "days_in_month y m =
     (if m = 2 then (if is_leap y then 29 else 28)
      else if m = 4 \<or> m = 6 \<or> m = 9 \<or> m = 11 then 30
      else 31)"

fun next_day :: "date \<Rightarrow> date" where
  "next_day (y, m, d) =
     (if d < days_in_month y m then (y, m, d + 1)
      else if m < 12 then (y, m + 1, 1)
      else (y + 1, 1, 1))"

section \<open>Fetch adapter payloads and record extraction\<close>

text \<open>
  One element of a day's \<^verbatim>\<open>hourly\<close> list. The API sends its values as text; a field is
  \<open>None\<close> when the key is missing or its text is empty, which is when
  \<^verbatim>\<open>h.get(key)\<close> is falsy.
\<close>

record hourly_reading =
  windspeedKmph :: "rat option"
  winddir16Point :: "string option"
  WindGustKmph :: "rat option"

text \<open>One element of \<^verbatim>\<open>data['data']['weather']\<close>; \<open>hourly = None\<close> when the key is absent.\<close>

record day_payload =
  day_date :: date
  maxtempC :: int
  mintempC :: int
  maxtempF :: int
  mintempF :: int
  uvIndex :: "string option"
  sunHour :: "string option"
  hourly :: "hourly_reading list option"

text \<open>
  \<^verbatim>\<open>round(avg_wind_speed, 1)\<close>: the nearest multiple of one tenth, a tie going to the even
  neighbour. The rounding is taken on the exact rational value; the representation error
  of binary floating point is not part of this model.
\<close>

definition py_round1 :: "rat \<Rightarrow> rat" where
  "py_round1 x =
     (let t = x * 10; f = \<lfloor>t\<rfloor>; frac = t - of_int f
      in (if frac < 1 / 2 then of_int f
          else if 1 / 2 < frac then of_int (f + 1)
          else if even f then of_int f
          else of_int (f + 1)) / 10)"

text \<open>\<^verbatim>\<open>day.get(key, '')\<close>\<close>

definition get_text :: "string option \<Rightarrow> string" where
  "get_text v = (case v of None \<Rightarrow> [] | Some s \<Rightarrow> s)"

text \<open>The record dictionary of fetch_digby_temperature.py: no wind fields.\<close>

definition fetch_record :: "day_payload \<Rightarrow> weather_record" where
  "fetch_record day =
     \<lparr>date = day_date day,
      max_temp_c = maxtempC day,
      min_temp_c = mintempC day,
      max_temp_f = maxtempF day,
      min_temp_f = mintempF day,
      avg_temp_c = of_int (maxtempC day + mintempC day) / 2,
      avg_temp_f = of_int (maxtempF day + mintempF day) / 2,
      uv_index = get_text (uvIndex day),
      sun_hour = get_text (sunHour day),
      wind_speed_kmph = None,
      wind_direction = None,
      wind_gust_kmph = None\<rparr>"

text \<open>\<^verbatim>\<open>hourly = day.get('hourly', [{}])\<close>\<close>

definition hourly_of :: "day_payload \<Rightarrow> hourly_reading list" where
  "hourly_of day =
     (case hourly day of
        None \<Rightarrow> [\<lparr>windspeedKmph = None, winddir16Point = None, WindGustKmph = None\<rparr>]
      | Some hs \<Rightarrow> hs)"

text \<open>
  \<^verbatim>\<open>wind_speeds = [float(h.get('windspeedKmph', 0)) for h in hourly if h.get('windspeedKmph')]\<close>
\<close>

definition wind_speeds :: "hourly_reading list \<Rightarrow> rat list" where
  "wind_speeds hs = List.map_filter windspeedKmph hs"

text \<open>\<^verbatim>\<open>avg_wind_speed = sum(wind_speeds) / len(wind_speeds) if wind_speeds else 0\<close>\<close>

definition avg_wind_speed :: "hourly_reading list \<Rightarrow> rat" where
  "avg_wind_speed hs =
     (if wind_speeds hs \<noteq> [] then sum_list (wind_speeds hs) / of_nat (length (wind_speeds hs))
      else 0)"

text \<open>The record dictionary of update_digby_temperature.py, lines 141 to 160.\<close>

definition update_record :: "day_payload \<Rightarrow> weather_record" where
  "update_record day =
     (let hs = hourly_of day
      in \<lparr>date = day_date day,
          max_temp_c = maxtempC day,
          min_temp_c = mintempC day,
          max_temp_f = maxtempF day,
          min_temp_f = mintempF day,
          avg_temp_c = of_int (maxtempC day + mintempC day) / 2,
          avg_temp_f = of_int (maxtempF day + mintempF day) / 2,
          uv_index = get_text (uvIndex day),
          sun_hour = get_text (sunHour day),
          wind_speed_kmph = Some (py_round1 (avg_wind_speed hs)),
          wind_direction =
            Some (case hs of [] \<Rightarrow> [] | h # _ \<Rightarrow> get_text (winddir16Point h)),
          wind_gust_kmph =
            Some (case hs of [] \<Rightarrow> 0
                  | h # _ \<Rightarrow> (case WindGustKmph h of None \<Rightarrow> 0 | Some g \<Rightarrow> g))\<rparr>)"



text \<open>A day payload with the given date and Celsius extremes, for examples.\<close>

definition sample_day :: "date \<Rightarrow> int \<Rightarrow> int \<Rightarrow> day_payload" where
  "sample_day d hi lo =
     \<lparr>day_date = d, maxtempC = hi, mintempC = lo,
      maxtempF = hi * 9 div 5 + 32, mintempF = lo * 9 div 5 + 32,
      uvIndex = Some ''1'', sunHour = Some ''8.0'', hourly = None\<rparr>"

section \<open>The incremental update run\<close>





section \<open>Saving the dataset\<close>






section \<open>Aggregator: cold streaks of analyze_january_patterns.py\<close>

text \<open>The four variables of the streak loop, lines 58 to 61.\<close>

record streak_state =
  current_streak :: nat
  max_streak :: nat
  streak_start :: "date option"
  streaks :: "(date option \<times> nat) list"

text \<open>
  The loop body, lines 64 to 72, for a row test \<open>P\<close> (the script tests
  \<^verbatim>\<open>row['max_temp_c'] < -5\<close>). \<^verbatim>\<open>streak_start\<close> starts as Python's \<^verbatim>\<open>None\<close>.
\<close>

definition streak_step :: "(weather_record \<Rightarrow> bool) \<Rightarrow> weather_record \<Rightarrow> streak_state \<Rightarrow> streak_state" where
  "streak_step P row st =
     (if P row then
        st\<lparr>streak_start := (if current_streak st = 0 then Some (date row) else streak_start st),
           current_streak := current_streak st + 1,
           max_streak := max (max_streak st) (current_streak st + 1)\<rparr>
      else
        st\<lparr>streaks := (if 0 < current_streak st
                        then streaks st @ [(streak_start st, current_streak st)]
                        else streaks st),
           current_streak := 0\<rparr>)"

definition scan_rows :: "(weather_record \<Rightarrow> bool) \<Rightarrow> weather_record list \<Rightarrow> streak_state" where
  "scan_rows P year_data =
     fold (streak_step P) year_data
       \<lparr>current_streak = 0, max_streak = 0, streak_start = None, streaks = []\<rparr>"

text \<open>The loop and the check after it, lines 75 and 76: the list \<^verbatim>\<open>streaks\<close> that is printed.\<close>

definition consecutive_day_streaks ::
  "(weather_record \<Rightarrow> bool) \<Rightarrow> weather_record list \<Rightarrow> (date option \<times> nat) list" where
  "consecutive_day_streaks P year_data =
     (let st = scan_rows P year_data
      in if 0 < current_streak st
         then streaks st @ [(streak_start st, current_streak st)]
         else streaks st)"

definition jan_df :: "weather_record list \<Rightarrow> weather_record list" where
  "jan_df df = filter (\<lambda>r. month_of (date r) = 1) df"

text \<open>\<^verbatim>\<open>year_data = jan_df[jan_df['year'] == year].sort_values('date')\<close>\<close>

definition year_data :: "weather_record list \<Rightarrow> nat \<Rightarrow> weather_record list" where
  "year_data df y = sort_values (filter (\<lambda>r. year_of (date r) = y) (jan_df df))"

definition january_cold_streaks :: "weather_record list \<Rightarrow> nat \<Rightarrow> (date option \<times> nat) list" where
  "january_cold_streaks df y = consecutive_day_streaks (\<lambda>r. max_temp_c r < - 5) (year_data df y)"

definition january_longest_streak :: "weather_record list \<Rightarrow> nat \<Rightarrow> nat" where
  "january_longest_streak df y = max_streak (scan_rows (\<lambda>r. max_temp_c r < - 5) (year_data df y))"

text \<open>
  The vocabulary of the specification. A maximal run of a row list is a non-empty block of
  adjacent rows that all pass the test, with no passing row directly before or after it.
  The rows are on consecutive calendar dates when each row is dated the day after the row
  before it.
\<close>

definition maximal_run ::
  "(weather_record \<Rightarrow> bool) \<Rightarrow> weather_record list \<Rightarrow>
   weather_record list \<Rightarrow> weather_record list \<Rightarrow> weather_record list \<Rightarrow> bool" where
  "maximal_run P rs before run after \<longleftrightarrow>
     rs = before @ run @ after \<and> run \<noteq> [] \<and> list_all P run \<and>
     (before = [] \<or> \<not> P (last before)) \<and> (after = [] \<or> \<not> P (hd after))"

fun consecutive_dates :: "weather_record list \<Rightarrow> bool" where
  "consecutive_dates [] = True"
| "consecutive_dates [r] = True"
| "consecutive_dates (r # r' # rs) \<longleftrightarrow> date r' = next_day (date r) \<and> consecutive_dates (r' # rs)"

text \<open>The dates \<open>d\<close>, the day after \<open>d\<close>, and so on: \<open>n\<close> of them.\<close>

fun days_from :: "date \<Rightarrow> nat \<Rightarrow> date list" where
  "days_from d 0 = []"
| "days_from d (Suc n) = d # days_from (next_day d) n"

text \<open>
  The streaks of a row list read off directly: at a passing row a streak starts, it is as
  long as the passing rows go on, and the search resumes behind them.
\<close>

function runs :: "(weather_record \<Rightarrow> bool) \<Rightarrow> weather_record list \<Rightarrow> (date option \<times> nat) list" where
  "runs P [] = []"
| "runs P (r # rs) =
     (if P r then (Some (date r), Suc (length (takeWhile P rs))) # runs P (dropWhile P rs)
      else runs P rs)"
  by pat_completeness auto
termination
  by (relation "measure (\<lambda>(P, rs). length rs)") (auto simp: less_Suc_eq_le length_dropWhile_le)

section \<open>Aggregator: per-year counts of analyze_cold_days.py and analyze_extreme_cold_days.py\<close>

text \<open>\<^verbatim>\<open>all_years = sorted(df['year'].unique())\<close>\<close>

definition all_years :: "weather_record list \<Rightarrow> nat list" where
  "all_years df = sort (remdups (map (\<lambda>r. year_of (date r)) df))"

text \<open>
  \<^verbatim>\<open>groupby('year').size()\<close>: a series with one entry for each year that has rows, and
  none for the other years.
\<close>

definition groupby_year_size :: "weather_record list \<Rightarrow> nat \<Rightarrow> nat option" where
  "groupby_year_size rs y =
     (let n = length (filter (\<lambda>r. year_of (date r) = y) rs)
      in if n = 0 then None else Some n)"

text \<open>
  The counting loop, lines 36 to 40: for each year of the dataset the line printed is the
  year with \<^verbatim>\<open>cold_days_by_year.get(year, 0)\<close>. \<open>P\<close> is the row filter.
\<close>

definition count_by_year_where :: "(weather_record \<Rightarrow> bool) \<Rightarrow> weather_record list \<Rightarrow> (nat \<times> nat) list" where
  "count_by_year_where P df =
     (let cold_days = filter P df;
          cold_days_by_year = groupby_year_size cold_days
      in map (\<lambda>y. (y, case cold_days_by_year y of None \<Rightarrow> 0 | Some c \<Rightarrow> c)) (all_years df))"

definition analyze_cold_days :: "weather_record list \<Rightarrow> (nat \<times> nat) list" where
  "analyze_cold_days df = count_by_year_where (\<lambda>r. min_temp_c r < - 10) df"

definition analyze_extreme_cold_days :: "weather_record list \<Rightarrow> (nat \<times> nat) list" where
  "analyze_extreme_cold_days df = count_by_year_where (\<lambda>r. max_temp_c r < - 10) df"

section \<open>Wind scripts: visualize_wind.py and plot_interactive_wind.py\<close>

text \<open>
  The frame read from the CSV file: the header's column names and the rows. A cell of a
  column that the header does not name is \<open>None\<close>.
\<close>

record data_frame =
  columns :: "string list"
  rows :: "weather_record list"

text \<open>How a script ends: \<^verbatim>\<open>exit(n)\<close> after printing messages, a KeyError, or its result.\<close>

datatype 'a script_outcome = Exit nat "string list" | KeyError string | Completed 'a

text \<open>Series reductions of pandas; the reduction of an empty series is NaN, here \<open>None\<close>.\<close>

definition series_mean :: "rat list \<Rightarrow> rat option" where
  "series_mean vs = (if vs = [] then None else Some (sum_list vs / of_nat (length vs)))"

definition series_max :: "rat list \<Rightarrow> rat option" where
  "series_max vs = (case vs of [] \<Rightarrow> None | v # ws \<Rightarrow> Some (fold max ws v))"

definition series_min :: "rat list \<Rightarrow> rat option" where
  "series_min vs = (case vs of [] \<Rightarrow> None | v # ws \<Rightarrow> Some (fold min ws v))"

text \<open>\<^verbatim>\<open>df_wind = df[df['wind_speed_kmph'] > 0]\<close>; a NaN cell compares false.\<close>

definition df_wind :: "data_frame \<Rightarrow> weather_record list" where
  "df_wind df =
     filter (\<lambda>r. case wind_speed_kmph r of None \<Rightarrow> False | Some v \<Rightarrow> 0 < v) (rows df)"

text \<open>The keys of \<^verbatim>\<open>direction_map\<close>.\<close>

definition direction_keys :: "string list" where
  "direction_keys =
     [''N'', ''NNE'', ''NE'', ''ENE'', ''E'', ''ESE'', ''SE'', ''SSE'',
      ''S'', ''SSW'', ''SW'', ''WSW'', ''W'', ''WNW'', ''NW'', ''NNW'']"

definition df_direction :: "data_frame \<Rightarrow> weather_record list" where
  "df_direction df =
     filter (\<lambda>r. case wind_direction r of None \<Rightarrow> False | Some d \<Rightarrow> d \<in> set direction_keys)
       (df_wind df)"

text \<open>
  \<^verbatim>\<open>value_counts()\<close>: each label that occurs with the number of its rows, the larger
  counts first; labels of equal count are left in the order of their first row.
\<close>

definition value_counts :: "string list \<Rightarrow> (string \<times> nat) list" where
  "value_counts labels =
     sort_key (\<lambda>p. - int (snd p))
       (map (\<lambda>l. (l, length (filter (\<lambda>x. x = l) labels))) (rev (remdups (rev labels))))"

record wind_statistics =
  average_wind_speed :: "rat option"
  maximum_wind_speed :: "rat option"
  minimum_wind_speed :: "rat option"
  maximum_wind_gust :: "rat option"
  direction_counts :: "(string \<times> nat) list"

text \<open>
  visualize_wind.py from the file check to the statistics block; the plots are left out.
  \<open>file = None\<close> is a missing input file. The maximum gust line is printed only when the
  gust column exists and its maximum is positive.
\<close>

definition visualize_wind :: "data_frame option \<Rightarrow> wind_statistics script_outcome" where
  "visualize_wind file =
     (case file of
        None \<Rightarrow> Exit 1 [''Error: digby_temperature_2020-2025.csv not found!'',
                         ''Please run fetch_digby_temperature.py first to download the data.'']
      | Some df \<Rightarrow>
          if ''wind_speed_kmph'' \<notin> set (columns df)
          then Exit 1 [''Error: No wind data in CSV file!'',
                       ''Please re-run fetch_digby_temperature.py to collect wind data.'']
          else if df_wind df = [] then Exit 1 [''No wind data available to visualize.'']
          else if ''wind_direction'' \<notin> set (columns df) then KeyError ''wind_direction''
          else
            (let speeds = List.map_filter wind_speed_kmph (df_wind df)
             in Completed
                  \<lparr>average_wind_speed = series_mean speeds,
                   maximum_wind_speed = series_max speeds,
                   minimum_wind_speed = series_min speeds,
                   maximum_wind_gust =
                     (if ''wind_gust_kmph'' \<in> set (columns df)
                      then (case series_max (List.map_filter wind_gust_kmph (rows df)) of
                              None \<Rightarrow> None
                            | Some g \<Rightarrow> if 0 < g then Some g else None)
                      else None),
                   direction_counts =
                     value_counts (List.map_filter wind_direction (df_direction df))\<rparr>))"

text \<open>The years and the (year, month) pairs of a frame, ascending, as groupby lists them.\<close>

definition year_months :: "weather_record list \<Rightarrow> (nat \<times> nat) list" where
  "year_months rs = sort (remdups (map (\<lambda>r. (year_of (date r), month_of (date r))) rs))"

text \<open>
  \<^verbatim>\<open>monthly_avg = df.groupby(['year', 'month'])['wind_speed_kmph'].mean()\<close>: NaN cells are
  skipped, and the rows of wind speed 0 are part of the mean.
\<close>

definition monthly_avg :: "weather_record list \<Rightarrow> ((nat \<times> nat) \<times> rat option) list" where
  "monthly_avg rs =
     map (\<lambda>ym. (ym, series_mean (List.map_filter wind_speed_kmph
            (filter (\<lambda>r. (year_of (date r), month_of (date r)) = ym) rs))))
       (year_months rs)"

definition yearly_monthly_avg :: "weather_record list \<Rightarrow> (nat \<times> rat option) list" where
  "yearly_monthly_avg rs =
     map (\<lambda>y. (y, series_mean (List.map_filter snd
            (filter (\<lambda>p. fst (fst p) = y) (monthly_avg rs)))))
       (all_years rs)"

definition yearly_max_gust :: "weather_record list \<Rightarrow> (nat \<times> rat option) list" where
  "yearly_max_gust rs =
     map (\<lambda>y. (y, series_max (List.map_filter wind_gust_kmph
            (filter (\<lambda>r. year_of (date r) = y) rs))))
       (all_years rs)"

record wind_summary =
  summary_monthly_avg :: "(nat \<times> rat option) list"
  summary_max_gust :: "(nat \<times> rat option) list"

text \<open>
  plot_interactive_wind.py from the file check to the summary block; the charts are left
  out. The gust chart reads the gust column without a check.
\<close>

definition plot_interactive_wind :: "data_frame option \<Rightarrow> wind_summary script_outcome" where
  "plot_interactive_wind file =
     (case file of
        None \<Rightarrow> Exit 1 [''Error: digby_temperature_2020-2025.csv not found!'',
                         ''Please run fetch_digby_temperature.py first to download the data.'']
      | Some df \<Rightarrow>
          if ''wind_speed_kmph'' \<notin> set (columns df)
          then Exit 1 [''Error: No wind data in CSV file!'',
                       ''Please re-run fetch_digby_temperature.py to collect wind data.'']
          else if ''wind_gust_kmph'' \<notin> set (columns df) then KeyError ''wind_gust_kmph''
          else Completed
                 \<lparr>summary_monthly_avg = yearly_monthly_avg (rows df),
                  summary_max_gust = yearly_max_gust (rows df)\<rparr>)"

section \<open>Example data\<close>

text \<open>A row of January 2024 as the first fetch stores it, with the given day and maximum.\<close>

definition jan_row :: "nat \<Rightarrow> int \<Rightarrow> weather_record" where
  "jan_row d hi = fetch_record (sample_day (2024, 1, d) hi (hi - 4))"

text \<open>
  Six January days with maxima -6, -7, -8, 3, -6, -6, together with a row of another
  month and a row of another year.
\<close>

definition january_example :: "weather_record list" where
  "january_example =
     [fetch_record (sample_day (2023, 1, 31) (- 9) (- 12)),
      jan_row 1 (- 6), jan_row 2 (- 7), jan_row 3 (- 8),
      jan_row 4 3, jan_row 5 (- 6), jan_row 6 (- 6),
      fetch_record (sample_day (2024, 2, 1) (- 9) (- 12))]"

text \<open>Two cold January days with no row for the day between them.\<close>

definition gap_example :: "weather_record list" where
  "gap_example = [jan_row 1 (- 6), jan_row 3 (- 6)]"

text \<open>One row for each year from 2020 to 2025; only 2020 and 2023 have a minimum below -10.\<close>

definition six_years_example :: "weather_record list" where
  "six_years_example =
     [fetch_record (sample_day (2020, 1, 5) (- 8) (- 12)),
      fetch_record (sample_day (2021, 7, 1) 24 15),
      fetch_record (sample_day (2022, 3, 9) 2 (- 4)),
      fetch_record (sample_day (2023, 2, 4) (- 14) (- 22)),
      fetch_record (sample_day (2024, 12, 25) 0 (- 10)),
      fetch_record (sample_day (2025, 6, 30) 19 11)]"

text \<open>A day for which the API sent three sub-daily readings.\<close>

definition three_readings_day :: day_payload where
  "three_readings_day =
     (sample_day (2024, 1, 10) 4 (- 1))
       \<lparr>hourly := Some
          [\<lparr>windspeedKmph = Some 10, winddir16Point = Some ''N'', WindGustKmph = Some 15\<rparr>,
           \<lparr>windspeedKmph = Some 21, winddir16Point = Some ''SW'', WindGustKmph = Some 40\<rparr>,
           \<lparr>windspeedKmph = Some 24, winddir16Point = Some ''S'', WindGustKmph = Some 30\<rparr>]\<rparr>"

text \<open>A day as the update script requests it (\<^verbatim>\<open>tp=24\<close>): one reading for the whole day.\<close>

definition one_reading_day :: day_payload where
  "one_reading_day =
     (sample_day (2024, 1, 11) 2 (- 3))
       \<lparr>hourly := Some
          [\<lparr>windspeedKmph = Some 18, winddir16Point = Some ''WNW'', WindGustKmph = Some 33\<rparr>]\<rparr>"

text \<open>The header that fetch_digby_temperature.py writes: no wind columns.\<close>

definition fetch_columns :: "string list" where
  "fetch_columns =
     [''date'', ''max_temp_c'', ''min_temp_c'', ''max_temp_f'', ''min_temp_f'',
      ''avg_temp_c'', ''avg_temp_f'', ''uv_index'', ''sun_hour'']"

text \<open>
  A frame with the wind columns: a day of wind speed 18, a day without wind samples
  (stored wind speed 0) and a day of wind speed 18.3; and the same frame without the
  middle row.
\<close>

definition wind_example :: data_frame where
  "wind_example =
     \<lparr>columns = fetch_columns @ [''wind_speed_kmph'', ''wind_direction'', ''wind_gust_kmph''],
      rows = [update_record one_reading_day,
              update_record (sample_day (2024, 1, 12) 1 (- 5)),
              update_record three_readings_day]\<rparr>"

definition wind_example_without_calm :: data_frame where
  "wind_example_without_calm =
     \<lparr>columns = fetch_columns @ [''wind_speed_kmph'', ''wind_direction'', ''wind_gust_kmph''],
      rows = [update_record one_reading_day, update_record three_readings_day]\<rparr>"

section \<open>Properties of the merge\<close>

lemma set_drop_duplicates_last_dates:
  "date ` set (drop_duplicates_last rs) = date ` set rs"
  by (induction rs) auto

lemma set_drop_duplicates_last_subset:
  "set (drop_duplicates_last rs) \<subseteq> set rs"
  by (induction rs) auto

lemma distinct_drop_duplicates_last:
  "distinct (map date (drop_duplicates_last rs))"
proof (induction rs)
  case Nil
  show ?case by simp
next
  case (Cons r rs)
  have "date r \<notin> date ` set rs \<Longrightarrow> date r \<notin> date ` set (drop_duplicates_last rs)"
    by (simp add: set_drop_duplicates_last_dates)
  with Cons show ?case by auto
qed

lemma sorted_drop_duplicates_last:
  "sorted (map date rs) \<Longrightarrow> sorted (map date (drop_duplicates_last rs))"
proof (induction rs)
  case Nil
  show ?case by simp
next
  case (Cons r rs)
  have sub: "set (drop_duplicates_last rs) \<subseteq> set rs"
    by (rule set_drop_duplicates_last_subset)
  from Cons show ?case using sub by auto
qed





lemma sorted_dates_merge: "sorted (map date (merge df_existing df_new))"
  unfolding merge_def sort_values_def
  by (rule sorted_drop_duplicates_last) (rule sorted_sort_key)

lemma distinct_dates_merge: "distinct (map date (merge df_existing df_new))"
  unfolding merge_def by (rule distinct_drop_duplicates_last)

text \<open>
  C3, sort invariant: after any merge of any dataset with any batch of records, the dates
  of the resulting rows, read in order, are strictly increasing; so there is at most one
  row per date and the rows are in ascending date order.
\<close>

theorem merge_dates_strictly_increasing:
  "sorted_wrt (<) (map date (merge df_existing df_new))"
  by (simp add: strict_sorted_iff sorted_dates_merge distinct_dates_merge)

lemma date_fetch_record: "date (fetch_record day) = day_date day"
  by (simp add: fetch_record_def)


lemma day_date_sample_day: "day_date (sample_day d hi lo) = d"
  by (simp add: sample_day_def)







section \<open>Properties of the record extraction\<close>






section \<open>Properties of the save\<close>




section \<open>Properties of the wind scripts\<close>

lemma fetch_columns_no_wind: "''wind_speed_kmph'' \<notin> set fetch_columns"
  by (simp add: fetch_columns_def)

text \<open>
  C8, missing wind column: for every dataset whose file has no \<open>wind_speed_kmph\<close> column,
  both wind scripts stop with the message that the file has no wind data and exit status
  1; neither goes on to compute a statistic from zero-filled or empty data.
\<close>

theorem missing_wind_column_exits:
  assumes "''wind_speed_kmph'' \<notin> set (columns df)"
  shows "visualize_wind (Some df) =
           Exit 1 [''Error: No wind data in CSV file!'',
                   ''Please re-run fetch_digby_temperature.py to collect wind data.''] \<and>
         plot_interactive_wind (Some df) =
           Exit 1 [''Error: No wind data in CSV file!'',
                   ''Please re-run fetch_digby_temperature.py to collect wind data.'']"
  using assms by (simp add: visualize_wind_def plot_interactive_wind_def)

theorem missing_wind_column_exits_witness:
  "''wind_speed_kmph'' \<notin> set (columns \<lparr>columns = fetch_columns, rows = january_example\<rparr>) \<and>
   visualize_wind (Some \<lparr>columns = fetch_columns, rows = january_example\<rparr>) =
     Exit 1 [''Error: No wind data in CSV file!'',
             ''Please re-run fetch_digby_temperature.py to collect wind data.''] \<and>
   plot_interactive_wind (Some \<lparr>columns = fetch_columns, rows = january_example\<rparr>) =
     Exit 1 [''Error: No wind data in CSV file!'',
             ''Please re-run fetch_digby_temperature.py to collect wind data.'']"
  using missing_wind_column_exits [of "\<lparr>columns = fetch_columns, rows = january_example\<rparr>"]
    fetch_columns_no_wind
  by simp


section \<open>Properties of the per-year counts\<close>

lemma all_years_set: "set (all_years df) = (\<lambda>r. year_of (date r)) ` set df"
  by (simp add: all_years_def)

lemma all_years_distinct: "distinct (all_years df)"
  by (simp add: all_years_def)

lemma all_years_sorted: "sorted (all_years df)"
  by (simp add: all_years_def)

lemma map_fst_count_by_year_where: "map fst (count_by_year_where P df) = all_years df"
  by (simp add: count_by_year_where_def Let_def comp_def)

lemma get_groupby_year_size:
  "(case groupby_year_size (filter P df) y of None \<Rightarrow> 0 | Some c \<Rightarrow> c) =
     length (filter (\<lambda>r. year_of (date r) = y \<and> P r) df)"
  by (simp add: groupby_year_size_def Let_def conj_commute)

lemma count_by_year_where_entry:
  "(y, c) \<in> set (count_by_year_where P df) \<longleftrightarrow>
     y \<in> (\<lambda>r. year_of (date r)) ` set df \<and>
     c = length (filter (\<lambda>r. year_of (date r) = y \<and> P r) df)"
  unfolding count_by_year_where_def Let_def get_groupby_year_size
  by (auto simp: all_years_set)

lemma years_2020_2025: "{2020..2025::nat} = {2020, 2021, 2022, 2023, 2024, 2025}"
  by auto

lemma six_years: "(\<lambda>r. year_of (date r)) ` set six_years_example = {2020..2025}"
  by (simp add: six_years_example_def date_fetch_record day_date_sample_day year_of_def years_2020_2025)

text \<open>
  C6, dense year counting: for every dataset and every row test, the per-year count has
  exactly one entry for every year that appears in the dataset, in ascending order of the
  years, and the entry of a year is the number of that year's rows that pass the test,
  which is an explicit 0 for a year without such a row. A dataset whose years are 2020 to
  2025 gives exactly 6 entries.
\<close>

theorem count_by_year_where_dense:
  "map fst (count_by_year_where P df) = all_years df \<and>
   sorted (all_years df) \<and> distinct (all_years df) \<and>
   set (all_years df) = (\<lambda>r. year_of (date r)) ` set df \<and>
   (\<forall>y c. (y, c) \<in> set (count_by_year_where P df) \<longleftrightarrow>
      y \<in> (\<lambda>r. year_of (date r)) ` set df \<and>
      c = length (filter (\<lambda>r. year_of (date r) = y \<and> P r) df)) \<and>
   ((\<lambda>r. year_of (date r)) ` set df = {2020..2025} \<longrightarrow>
      length (count_by_year_where P df) = 6)"
proof -
  have six: "length (count_by_year_where P df) = 6"
    if "(\<lambda>r. year_of (date r)) ` set df = {2020..2025}"
  proof -
    have "length (count_by_year_where P df) = length (all_years df)"
      by (simp add: count_by_year_where_def Let_def)
    also have "\<dots> = card (set (all_years df))"
      by (simp add: distinct_card all_years_distinct)
    also have "\<dots> = card {2020..2025::nat}"
      by (simp only: all_years_set that)
    finally show ?thesis by simp
  qed
  from six map_fst_count_by_year_where all_years_sorted all_years_distinct all_years_set
    count_by_year_where_entry
  show ?thesis by blast
qed

theorem count_by_year_where_dense_witness:
  "(\<lambda>r. year_of (date r)) ` set six_years_example = {2020..2025} \<and>
   length (analyze_cold_days six_years_example) = 6 \<and>
   analyze_cold_days six_years_example =
     [(2020, 1), (2021, 0), (2022, 0), (2023, 1), (2024, 0), (2025, 0)]"
proof (intro conjI)
  show "(\<lambda>r. year_of (date r)) ` set six_years_example = {2020..2025}"
    by (rule six_years)
  show "length (analyze_cold_days six_years_example) = 6"
    unfolding analyze_cold_days_def
    using count_by_year_where_dense [of "\<lambda>r. min_temp_c r < - 10" six_years_example] six_years
    by blast
  show "analyze_cold_days six_years_example =
     [(2020, 1), (2021, 0), (2022, 0), (2023, 1), (2024, 0), (2025, 0)]"
    by code_simp
qed

section \<open>Properties of the wind visualizer\<close>

lemma fold_min_in: "fold min ws (v::rat) \<in> set (v # ws)"
  by (induction ws arbitrary: v) (auto simp: min_def)

lemma series_min_in: "series_min vs = Some m \<Longrightarrow> m \<in> set vs"
  using fold_min_in by (auto simp: series_min_def split: list.splits)

lemma speeds_positive:
  "v \<in> set (List.map_filter wind_speed_kmph (df_wind df)) \<Longrightarrow> 0 < v"
  by (auto simp: df_wind_def List.map_filter_def split: option.splits)

lemma df_wind_without_calm:
  assumes "filter (\<lambda>r. wind_speed_kmph r \<noteq> Some 0) (rows df') =
           filter (\<lambda>r. wind_speed_kmph r \<noteq> Some 0) (rows df)"
  shows "df_wind df' = df_wind df"
proof -
  have key: "df_wind d = filter (\<lambda>r. case wind_speed_kmph r of None \<Rightarrow> False | Some v \<Rightarrow> 0 < v)
          (filter (\<lambda>r. wind_speed_kmph r \<noteq> Some 0) (rows d))" for d
    unfolding df_wind_def filter_filter
    by (rule filter_cong) (auto split: option.splits)
  have "df_wind df' = filter (\<lambda>r. case wind_speed_kmph r of None \<Rightarrow> False | Some v \<Rightarrow> 0 < v)
          (filter (\<lambda>r. wind_speed_kmph r \<noteq> Some 0) (rows df'))"
    by (rule key)
  also have "\<dots> = filter (\<lambda>r. case wind_speed_kmph r of None \<Rightarrow> False | Some v \<Rightarrow> 0 < v)
          (filter (\<lambda>r. wind_speed_kmph r \<noteq> Some 0) (rows df))"
    by (simp only: assms)
  also have "\<dots> = df_wind df"
    by (rule key [symmetric])
  finally show ?thesis .
qed

text \<open>
  C10: the wind visualizer leaves every row of wind speed 0 out of its wind statistics.
  When the script completes, the reported minimum wind speed is strictly positive; and a
  dataset with the same columns that differs only in rows of wind speed 0 (rows of a calm
  day or of a day without wind data, added or removed anywhere) makes the script complete
  with the same average, minimum and maximum wind speed and the same direction
  frequencies.
\<close>

theorem visualize_wind_excludes_calm:
  assumes fin: "visualize_wind (Some df) = Completed st"
    and cols: "columns df' = columns df"
    and same: "filter (\<lambda>r. wind_speed_kmph r \<noteq> Some 0) (rows df') =
               filter (\<lambda>r. wind_speed_kmph r \<noteq> Some 0) (rows df)"
  shows "(\<exists>m. minimum_wind_speed st = Some m \<and> 0 < m) \<and>
         (\<exists>st'. visualize_wind (Some df') = Completed st' \<and>
            average_wind_speed st' = average_wind_speed st \<and>
            minimum_wind_speed st' = minimum_wind_speed st \<and>
            maximum_wind_speed st' = maximum_wind_speed st \<and>
            direction_counts st' = direction_counts st)"
proof -
  let ?speeds = "List.map_filter wind_speed_kmph (df_wind df)"
  from fin have c1: "''wind_speed_kmph'' \<in> set (columns df)"
    and c2: "df_wind df \<noteq> []" and c3: "''wind_direction'' \<in> set (columns df)"
    by (auto simp: visualize_wind_def split: if_splits)
  from fin c1 c2 c3 have mn: "minimum_wind_speed st = series_min ?speeds"
    and av: "average_wind_speed st = series_mean ?speeds"
    and mx: "maximum_wind_speed st = series_max ?speeds"
    and dc: "direction_counts st = value_counts (List.map_filter wind_direction (df_direction df))"
    by (auto simp: visualize_wind_def Let_def)
  have w: "df_wind df' = df_wind df" using same by (rule df_wind_without_calm)
  then have d: "df_direction df' = df_direction df" by (simp add: df_direction_def)
  from c2 obtain r where r: "r \<in> set (df_wind df)" by (cases "df_wind df") auto
  then obtain v where "wind_speed_kmph r = Some v"
    by (auto simp: df_wind_def split: option.splits)
  with r have "v \<in> set ?speeds" by (force simp: List.map_filter_def)
  then have "?speeds \<noteq> []" by auto
  then obtain m where m: "series_min ?speeds = Some m"
    by (cases ?speeds) (auto simp: series_min_def)
  then have "0 < m" using series_min_in speeds_positive by blast
  with m mn have first: "\<exists>m. minimum_wind_speed st = Some m \<and> 0 < m" by simp
  from c1 c2 c3 cols w d av mn mx dc have second: "\<exists>st'. visualize_wind (Some df') = Completed st' \<and>
            average_wind_speed st' = average_wind_speed st \<and>
            minimum_wind_speed st' = minimum_wind_speed st \<and>
            maximum_wind_speed st' = maximum_wind_speed st \<and>
            direction_counts st' = direction_counts st"
    by (simp add: visualize_wind_def Let_def)
  from first second show ?thesis by blast
qed

theorem visualize_wind_excludes_calm_witness:
  "visualize_wind (Some wind_example) =
     Completed \<lparr>average_wind_speed = Some (363 / 20), maximum_wind_speed = Some (183 / 10),
                minimum_wind_speed = Some 18, maximum_wind_gust = Some 33,
                direction_counts = [(''WNW'', 1), (''N'', 1)]\<rparr> \<and>
   columns wind_example_without_calm = columns wind_example \<and>
   filter (\<lambda>r. wind_speed_kmph r \<noteq> Some 0) (rows wind_example_without_calm) =
     filter (\<lambda>r. wind_speed_kmph r \<noteq> Some 0) (rows wind_example) \<and>
   (\<exists>st'. visualize_wind (Some wind_example_without_calm) = Completed st' \<and>
      average_wind_speed st' = Some (363 / 20) \<and>
      minimum_wind_speed st' = Some 18 \<and>
      maximum_wind_speed st' = Some (183 / 10) \<and>
      direction_counts st' = [(''WNW'', 1), (''N'', 1)])"
proof -
  have e: "visualize_wind (Some wind_example) =
     Completed \<lparr>average_wind_speed = Some (363 / 20), maximum_wind_speed = Some (183 / 10),
                minimum_wind_speed = Some 18, maximum_wind_gust = Some 33,
                direction_counts = [(''WNW'', 1), (''N'', 1)]\<rparr>"
    by code_simp
  have c: "columns wind_example_without_calm = columns wind_example"
    by (simp add: wind_example_def wind_example_without_calm_def)
  have f: "filter (\<lambda>r. wind_speed_kmph r \<noteq> Some 0) (rows wind_example_without_calm) =
     filter (\<lambda>r. wind_speed_kmph r \<noteq> Some 0) (rows wind_example)"
    by code_simp
  from visualize_wind_excludes_calm [OF e c f] e c f show ?thesis by simp
qed

section \<open>Properties of the incremental update\<close>










section \<open>Properties of the streak detection\<close>

lemma scan_flush_runs:
  "(let st' = fold (streak_step P) rs st
    in if 0 < current_streak st'
       then streaks st' @ [(streak_start st', current_streak st')]
       else streaks st') =
   streaks st @
     (if 0 < current_streak st
      then (streak_start st, current_streak st + length (takeWhile P rs)) # runs P (dropWhile P rs)
      else runs P rs)"
proof (induction rs arbitrary: st)
  case Nil
  show ?case by (simp add: Let_def)
next
  case (Cons r rs)
  show ?case
  proof (cases "P r")
    case True
    then show ?thesis
      using Cons [of "streak_step P r st"] by (simp add: streak_step_def Let_def)
  next
    case False
    then show ?thesis
      using Cons [of "streak_step P r st"] by (simp add: streak_step_def Let_def)
  qed
qed

lemma consecutive_day_streaks_runs: "consecutive_day_streaks P rs = runs P rs"
  unfolding consecutive_day_streaks_def scan_rows_def
  by (simp only: scan_flush_runs) simp


lemma runs_sound:
  "(s, n) \<in> set (runs P rs) \<Longrightarrow>
     \<exists>before run after. maximal_run P rs before run after \<and> s = Some (date (hd run)) \<and> n = length run"
proof (induction P rs rule: runs.induct)
  case (1 P)
  then show ?case by simp
next
  case (2 P r rs)
  show ?case
  proof (cases "P r")
    case False
    with 2 obtain before run after where m: "maximal_run P rs before run after"
      and s: "s = Some (date (hd run))" and n: "n = length run"
      by auto
    from m False have "maximal_run P (r # rs) (r # before) run after"
      by (auto simp: maximal_run_def)
    with s n show ?thesis by blast
  next
    case True
    show ?thesis
    proof (cases "(s, n) = (Some (date r), Suc (length (takeWhile P rs)))")
      case True
      have "maximal_run P (r # rs) [] (r # takeWhile P rs) (dropWhile P rs)"
        using \<open>P r\<close> hd_dropWhile [of P rs]
        by (auto simp: maximal_run_def list_all_iff dest: set_takeWhileD)
      with True show ?thesis by force
    next
      case False
      with 2 \<open>P r\<close> obtain before run after
        where m: "maximal_run P (dropWhile P rs) before run after"
        and s: "s = Some (date (hd run))" and n: "n = length run"
        by auto
      have ne: "before \<noteq> []"
      proof
        assume "before = []"
        with m have d: "dropWhile P rs = run @ after" and "run \<noteq> []" and "list_all P run"
          by (auto simp: maximal_run_def)
        then have "hd (dropWhile P rs) = hd run" and "P (hd run)" and "dropWhile P rs \<noteq> []"
          by (auto simp: list_all_iff)
        with hd_dropWhile [of P rs] show False by simp
      qed
      from m have "r # rs = (r # takeWhile P rs @ before) @ run @ after"
        by (simp add: maximal_run_def) (metis append.assoc takeWhile_dropWhile_id)
      with m ne have "maximal_run P (r # rs) (r # takeWhile P rs @ before) run after"
        by (auto simp: maximal_run_def)
      with s n show ?thesis by blast
    qed
  qed
qed

lemma runs_complete:
  "maximal_run P rs before run after \<Longrightarrow> (Some (date (hd run)), length run) \<in> set (runs P rs)"
proof (induction P rs arbitrary: before rule: runs.induct)
  case (1 P)
  then show ?case by (auto simp: maximal_run_def)
next
  case (2 P r rs)
  note m = \<open>maximal_run P (r # rs) before run after\<close>
  show ?case
  proof (cases "P r")
    case False
    with m obtain b where b: "before = r # b"
      by (cases before) (auto simp: maximal_run_def list_all_iff neq_Nil_conv)
    with m have "maximal_run P rs b run after"
      by (auto simp: maximal_run_def split: if_splits)
    with 2 False show ?thesis by simp
  next
    case True
    show ?thesis
    proof (cases before)
      case Nil
      with m obtain run' where run: "run = r # run'" and rs: "rs = run' @ after"
        and all: "\<forall>x\<in>set run'. P x" and aft: "after = [] \<or> \<not> P (hd after)"
        by (cases run) (auto simp: maximal_run_def list_all_iff)
      from aft have "takeWhile P after = []" by (cases after) auto
      with all rs have "takeWhile P rs = run'" by simp
      with run True show ?thesis by simp
    next
      case (Cons b bs)
      with m have b: "b = r" and rs: "rs = bs @ run @ after" and bad: "\<not> P (last before)"
        by (auto simp: maximal_run_def)
      from Cons bad True b have bsne: "bs \<noteq> []" and badbs: "\<not> P (last bs)"
        by (auto split: if_splits)
      then have inbs: "last bs \<in> set bs" by simp
      from inbs badbs have dne: "dropWhile P bs \<noteq> []" by auto
      have split: "bs = takeWhile P bs @ dropWhile P bs" by simp
      from dne have lastd: "last (dropWhile P bs) = last bs"
        by (metis last_appendR takeWhile_dropWhile_id)
      from inbs badbs rs have "dropWhile P rs = dropWhile P bs @ run @ after"
        by simp
      with m dne lastd badbs have "maximal_run P (dropWhile P rs) (dropWhile P bs) run after"
        by (auto simp: maximal_run_def)
      with 2 True show ?thesis by simp
    qed
  qed
qed

lemma consecutive_dates_append:
  "consecutive_dates (xs @ ys) \<Longrightarrow> consecutive_dates xs \<and> consecutive_dates ys"
proof (induction xs rule: consecutive_dates.induct)
  case 1
  then show ?case by simp
next
  case (2 r)
  then show ?case by (cases ys) auto
next
  case (3 r r' rs)
  then show ?case by auto
qed

lemma consecutive_dates_days_from:
  "consecutive_dates run \<Longrightarrow> run \<noteq> [] \<Longrightarrow> map date run = days_from (date (hd run)) (length run)"
  by (induction run rule: consecutive_dates.induct) auto


text \<open>
  What the streak loop computes. For every sequence of records scanned in order and every
  row test, the reported streaks are exactly the maximal runs of adjacent records that all
  pass the test, each reported with the date of its first record and its number of
  records; a run still open when the period ends is included. When the records are on
  consecutive calendar dates (no date is missing), the records of such a run are on the
  consecutive calendar dates that start at the reported date. For the January records
  with maxima -6, -7, -8, 3, -6, -6 on 1 to 6 January and the test \<open>max_temp_c < -5\<close> the
  reported streaks are exactly (1 January, 3) and (5 January, 2).
\<close>

theorem consecutive_day_streaks_maximal_runs:
  "((s, n) \<in> set (consecutive_day_streaks P rs) \<longleftrightarrow>
      (\<exists>before run after. maximal_run P rs before run after \<and>
         s = Some (date (hd run)) \<and> n = length run)) \<and>
   (consecutive_dates rs \<longrightarrow> maximal_run P rs before run after \<longrightarrow>
      map date run = days_from (date (hd run)) (length run)) \<and>
   january_cold_streaks january_example 2024 = [(Some (2024, 1, 1), 3), (Some (2024, 1, 5), 2)]"
proof (intro conjI impI)
  show "(s, n) \<in> set (consecutive_day_streaks P rs) \<longleftrightarrow>
      (\<exists>before run after. maximal_run P rs before run after \<and>
         s = Some (date (hd run)) \<and> n = length run)"
    unfolding consecutive_day_streaks_runs
  proof
    assume "(s, n) \<in> set (runs P rs)"
    then show "\<exists>before run after. maximal_run P rs before run after \<and>
         s = Some (date (hd run)) \<and> n = length run"
      by (rule runs_sound)
  next
    assume "\<exists>before run after. maximal_run P rs before run after \<and>
         s = Some (date (hd run)) \<and> n = length run"
    then obtain before run after where "maximal_run P rs before run after"
      and "s = Some (date (hd run))" and "n = length run"
      by (elim exE conjE)
    then show "(s, n) \<in> set (runs P rs)"
      by (simp add: runs_complete)
  qed
next
  assume c: "consecutive_dates rs" and m: "maximal_run P rs before run after"
  from m have rs: "rs = before @ run @ after" and ne: "run \<noteq> []"
    by (simp_all add: maximal_run_def)
  from c rs have "consecutive_dates run"
    using consecutive_dates_append by blast
  with ne show "map date run = days_from (date (hd run)) (length run)"
    by (simp add: consecutive_dates_days_from)
next
  show "january_cold_streaks january_example 2024 = [(Some (2024, 1, 1), 3), (Some (2024, 1, 5), 2)]"
    by code_simp
qed

theorem consecutive_day_streaks_maximal_runs_witness:
  "consecutive_dates (year_data january_example 2024) \<and>
   maximal_run (\<lambda>r. max_temp_c r < - 5) (year_data january_example 2024)
     [] [jan_row 1 (- 6), jan_row 2 (- 7), jan_row 3 (- 8)]
     [jan_row 4 3, jan_row 5 (- 6), jan_row 6 (- 6)] \<and>
   map date [jan_row 1 (- 6), jan_row 2 (- 7), jan_row 3 (- 8)] =
     days_from (date (hd [jan_row 1 (- 6), jan_row 2 (- 7), jan_row 3 (- 8)]))
       (length [jan_row 1 (- 6), jan_row 2 (- 7), jan_row 3 (- 8)]) \<and>
   (Some (date (hd [jan_row 1 (- 6), jan_row 2 (- 7), jan_row 3 (- 8)])),
    length [jan_row 1 (- 6), jan_row 2 (- 7), jan_row 3 (- 8)])
     \<in> set (consecutive_day_streaks (\<lambda>r. max_temp_c r < - 5) (year_data january_example 2024))"
proof -
  let ?P = "\<lambda>r. max_temp_c r < - 5"
  let ?rs = "year_data january_example 2024"
  let ?run = "[jan_row 1 (- 6), jan_row 2 (- 7), jan_row 3 (- 8)]"
  let ?after = "[jan_row 4 3, jan_row 5 (- 6), jan_row 6 (- 6)]"
  have c: "consecutive_dates ?rs" by code_simp
  have m: "maximal_run ?P ?rs [] ?run ?after" by code_simp
  note t = consecutive_day_streaks_maximal_runs
    [of "Some (date (hd ?run))" "length ?run" ?P ?rs "[]" ?run ?after]
  from t c m have d: "map date ?run = days_from (date (hd ?run)) (length ?run)"
    by (elim conjE) (rule mp [OF mp])
  from m have "\<exists>before run after. maximal_run ?P ?rs before run after \<and>
      Some (date (hd ?run)) = Some (date (hd run)) \<and> length ?run = length run"
    by (intro exI conjI) (assumption, rule refl, rule refl)
  with t have k: "(Some (date (hd ?run)), length ?run) \<in> set (consecutive_day_streaks ?P ?rs)"
    by (elim conjE) (rule iffD2)
  from c m d k show ?thesis by (intro conjI)
qed

text \<open>
  C5, streak detection: each reported streak has to be a maximal run of consecutive
  calendar dates, with no gap between successive dates, that all pass the test. The loop
  compares no dates. With rows for 1 and 3 January only, both colder than -5, it reports
  one streak of 2 days starting 1 January, which the script prints as consecutive days,
  although 2 January, the second of two consecutive days from 1 January, has no row.
\<close>

theorem streak_gap_failing_input:
  "january_cold_streaks gap_example 2024 = [(Some (2024, 1, 1), 2)] \<and>
   map date (year_data gap_example 2024) = [(2024, 1, 1), (2024, 1, 3)] \<and>
   days_from (2024, 1, 1) 2 = [(2024, 1, 1), (2024, 1, 2)]"
  by code_simp

end
